theory Spec2Isabelle
  imports Complex_Main
begin

section \<open>JavaScript values as the bridge sees them\<close>

text \<open>
  The module under verification is \<^verbatim>\<open>external-messages.ts\<close> (the synthetic-update
  generation of the Telegram external message bridge). It is TypeScript running on
  Node, so its data are JavaScript values: strings are sequences of UTF-16 code
  units, numbers are IEEE doubles, and a request body is whatever \<^verbatim>\<open>JSON.parse\<close>
  returned.

  A string is modelled as the list of its code units. Literals of the source are
  written with \<open>js\<close>, which maps an ASCII literal to its code units.
\<close>

type_synonym jsstring = "nat list"

definition js :: "string \<Rightarrow> jsstring" where
  "js s = map of_char s"

text \<open>
  \<^verbatim>\<open>String.prototype.trim\<close> removes ECMAScript WhiteSpace and LineTerminator
  code units from both ends: TAB, LF, VT, FF, CR, SP, NBSP, the Unicode space
  separators, LS, PS and the byte order mark.
\<close>

definition isWhiteSpace :: "nat \<Rightarrow> bool" where
  "isWhiteSpace c \<longleftrightarrow>
     c = 9 \<or> c = 10 \<or> c = 11 \<or> c = 12 \<or> c = 13 \<or> c = 32 \<or> c = 160 \<or>
     c = 5760 \<or> (8192 \<le> c \<and> c \<le> 8202) \<or> c = 8232 \<or> c = 8233 \<or>
     c = 8239 \<or> c = 8287 \<or> c = 12288 \<or> c = 65279"

definition trim :: "jsstring \<Rightarrow> jsstring" where
  "trim s = rev (dropWhile isWhiteSpace (rev (dropWhile isWhiteSpace s)))"

text \<open>\<^verbatim>\<open>s.startsWith(p)\<close> and \<^verbatim>\<open>s.slice(n)\<close> for a non-negative \<open>n\<close>.\<close>

definition startsWith :: "jsstring \<Rightarrow> jsstring \<Rightarrow> bool" where
  "startsWith s p \<longleftrightarrow> take (length p) s = p"

definition slice_from :: "nat \<Rightarrow> jsstring \<Rightarrow> jsstring" where
  "slice_from n s = drop n s"

text \<open>
  A number is NaN, an infinity or a finite value. Finite doubles are rationals; the
  model admits every rational, which is more than the doubles, so a statement about
  every number of the model covers every double. Positive and negative zero are the
  one value \<open>Fin 0\<close>: the code only compares numbers with zero and tests their
  truthiness, and both zeros behave alike there.
\<close>

datatype jsnum = NaN | NegInfinity | PosInfinity | Fin rat

text \<open>\<^verbatim>\<open>n < 0\<close>: false for NaN.\<close>

definition num_negative :: "jsnum \<Rightarrow> bool" where
  "num_negative n = (case n of NegInfinity \<Rightarrow> True | Fin q \<Rightarrow> q < 0 | _ \<Rightarrow> False)"

datatype jsval =
    JUndefined
  | JNull
  | JBool bool
  | JNum jsnum
  | JStr jsstring
  | JArr "jsval list"
  | JObj "(jsstring \<times> jsval) list"

text \<open>
  ToBoolean. The falsy values are \<^verbatim>\<open>undefined\<close>, \<^verbatim>\<open>null\<close>, \<^verbatim>\<open>false\<close>, zero,
  NaN and the empty string; every object and array is truthy.
\<close>

definition truthy :: "jsval \<Rightarrow> bool" where
  "truthy v = (case v of
       JUndefined \<Rightarrow> False
     | JNull \<Rightarrow> False
     | JBool b \<Rightarrow> b
     | JNum n \<Rightarrow> n \<noteq> NaN \<and> n \<noteq> Fin 0
     | JStr s \<Rightarrow> s \<noteq> []
     | JArr _ \<Rightarrow> True
     | JObj _ \<Rightarrow> True)"

text \<open>\<^verbatim>\<open>v == null\<close>: true for \<^verbatim>\<open>undefined\<close> and \<^verbatim>\<open>null\<close> only.\<close>

definition nullish :: "jsval \<Rightarrow> bool" where
  "nullish v \<longleftrightarrow> v = JUndefined \<or> v = JNull"

text \<open>
  Reading a named property \<^verbatim>\<open>p.k\<close> of a parsed JSON value that is an object or an
  array. The names the module reads (\<^verbatim>\<open>chatId\<close>, \<^verbatim>\<open>secret\<close>, ...) are no array
  index and no property of \<^verbatim>\<open>Object.prototype\<close> or \<^verbatim>\<open>Array.prototype\<close>, so an array, and
  an object without the key, give \<^verbatim>\<open>undefined\<close>.
\<close>

definition get_prop :: "jsval \<Rightarrow> jsstring \<Rightarrow> jsval" where
  "get_prop v k = (case v of
       JObj kvs \<Rightarrow> (case map_of kvs k of None \<Rightarrow> JUndefined | Some x \<Rightarrow> x)
     | _ \<Rightarrow> JUndefined)"

text \<open>
  What the module throws and catches. \<open>ErrorObj m\<close> is an \<^verbatim>\<open>Error\<close> instance with
  message \<open>m\<close>; \<open>Thrown s\<close> is any other thrown value, \<open>s\<close> being \<^verbatim>\<open>String(err)\<close>.
\<close>

datatype js_exn = ErrorObj jsstring | Thrown jsstring

definition TypeError_toPrimitive :: js_exn where
  "TypeError_toPrimitive = ErrorObj (js ''Cannot convert object to primitive value'')"

text \<open>
  The built-ins the module calls but does not define are parameters of the model:
  \<^item> \<open>StringToNumber\<close>: \<^verbatim>\<open>Number(s)\<close> for a string \<open>s\<close>;
  \<^item> \<open>NumberToString\<close>: \<^verbatim>\<open>String(n)\<close> for a number \<open>n\<close>;
  \<^item> \<open>JSON_parse\<close>: \<^verbatim>\<open>JSON.parse\<close> of the decoded body, \<open>Inl s\<close> when it throws an
    error \<open>err\<close> with \<^verbatim>\<open>String(err) = s\<close>.
\<close>

record builtins =
  StringToNumber :: "jsstring \<Rightarrow> jsnum"
  NumberToString :: "jsnum \<Rightarrow> jsstring"
  JSON_parse :: "nat list \<Rightarrow> jsstring + jsval"

text \<open>
  ToString of a parsed JSON value. An array is joined with commas, \<^verbatim>\<open>null\<close> and
  \<^verbatim>\<open>undefined\<close> elements giving the empty string. A plain object gives
  \<^verbatim>\<open>[object Object]\<close> through \<^verbatim>\<open>Object.prototype.toString\<close>, unless it has an own
  property \<^verbatim>\<open>toString\<close>: a parsed value is never callable, so no method converts the
  object and a TypeError is thrown.
\<close>

fun ToString :: "builtins \<Rightarrow> jsval \<Rightarrow> js_exn + jsstring"
  and join_elements :: "builtins \<Rightarrow> jsval list \<Rightarrow> js_exn + jsstring"
where
  "ToString B JUndefined = Inr (js ''undefined'')"
| "ToString B JNull = Inr (js ''null'')"
| "ToString B (JBool b) = Inr (if b then js ''true'' else js ''false'')"
| "ToString B (JNum n) = Inr (NumberToString B n)"
| "ToString B (JStr s) = Inr s"
| "ToString B (JArr xs) = join_elements B xs"
| "ToString B (JObj kvs) =
     (if js ''toString'' \<in> fst ` set kvs then Inl TypeError_toPrimitive
      else Inr (js ''[object Object]''))"
| "join_elements B [] = Inr []"
| "join_elements B (x # xs) =
     (case (if nullish x then Inr [] else ToString B x) of
        Inl e \<Rightarrow> Inl e
      | Inr s \<Rightarrow>
          (if xs = [] then Inr s
           else (case join_elements B xs of
                   Inl e \<Rightarrow> Inl e
                 | Inr r \<Rightarrow> Inr (s @ js '','' @ r))))"

text \<open>
  \<^verbatim>\<open>Number(v)\<close>. Objects and arrays go through ToPrimitive: \<^verbatim>\<open>valueOf\<close> never yields
  a primitive for a parsed value, so the result is that of \<^verbatim>\<open>toString\<close>.
\<close>

definition Number :: "builtins \<Rightarrow> jsval \<Rightarrow> js_exn + jsnum" where
  "Number B v = (case v of
       JUndefined \<Rightarrow> Inr NaN
     | JNull \<Rightarrow> Inr (Fin 0)
     | JBool b \<Rightarrow> Inr (Fin (if b then 1 else 0))
     | JNum n \<Rightarrow> Inr n
     | JStr s \<Rightarrow> Inr (StringToNumber B s)
     | _ \<Rightarrow> (case ToString B v of Inl e \<Rightarrow> Inl e | Inr s \<Rightarrow> Inr (StringToNumber B s)))"

text \<open>\<^verbatim>\<open>typeof v\<close>, for the three answers the module asks for.\<close>

definition typeof_object :: "jsval \<Rightarrow> bool" where
  "typeof_object v = (case v of JNull \<Rightarrow> True | JArr _ \<Rightarrow> True | JObj _ \<Rightarrow> True | _ \<Rightarrow> False)"

definition typeof_string :: "jsval \<Rightarrow> bool" where
  "typeof_string v = (case v of JStr _ \<Rightarrow> True | _ \<Rightarrow> False)"

definition typeof_number :: "jsval \<Rightarrow> bool" where
  "typeof_number v = (case v of JNum _ \<Rightarrow> True | _ \<Rightarrow> False)"

text \<open>A value that is neither an array nor an object.\<close>

definition primitive :: "jsval \<Rightarrow> bool" where
  "primitive v = (case v of JArr _ \<Rightarrow> False | JObj _ \<Rightarrow> False | _ \<Rightarrow> True)"

text \<open>Sequencing of computations that may throw: the first exception wins.\<close>

definition thenE :: "js_exn + 'a \<Rightarrow> ('a \<Rightarrow> js_exn + 'b) \<Rightarrow> js_exn + 'b" where
  "thenE m f = (case m of Inl e \<Rightarrow> Inl e | Inr x \<Rightarrow> f x)"

section \<open>Types of the module\<close>

text \<open>
  \<^verbatim>\<open>ExternalMessagesConfig\<close>. The envelope options are opaque to the bridge, so their
  type is a parameter.
\<close>

record 'e ExternalMessagesConfig =
  secret :: jsstring
  historyLimit :: jsnum
  envelopeOptions :: "'e option"

text \<open>
  The synthetic update, as \<^verbatim>\<open>buildSyntheticUpdate\<close> lays it out. A field the object
  literal may leave out is an \<open>option\<close>. \<^verbatim>\<open>username\<close> and \<^verbatim>\<open>message_thread_id\<close> carry
  the payload's value as it came.
\<close>

record User =
  user_id :: jsnum
  user_is_bot :: bool
  user_first_name :: jsstring
  user_username :: "jsval option"

record Chat =
  chat_id :: jsnum
  chat_type :: jsstring
  chat_title :: "jsstring option"
  chat_first_name :: "jsstring option"

record ReplyMessage =
  reply_message_id :: jsnum
  reply_date :: jsval
  reply_chat :: Chat

record Message =
  message_id :: jsnum
  msg_date :: jsval
  msg_chat :: Chat
  msg_from :: User
  msg_text :: jsval
  reply_to_message :: "ReplyMessage option"
  message_thread_id :: "jsval option"

record Update =
  update_id :: int
  message :: Message

section \<open>Registry and identifier counter\<close>

text \<open>
  The module state: the two registries and \<^verbatim>\<open>syntheticUpdateCounter\<close>. The counter is
  a JavaScript number that only ever holds integers, so it is an \<open>int\<close> here, with
  the double arithmetic of \<^verbatim>\<open>syntheticUpdateCounter--\<close> written out: down to
  \<open>- 2 ^ 53\<close> the subtraction is exact, and at \<open>- 2 ^ 53\<close> the exact result
  \<open>- 2 ^ 53 - 1\<close> is no double and rounds (to even) back to \<open>- 2 ^ 53\<close>. Values
  below \<open>- 2 ^ 53\<close> are never reached from the initial \<open>- 1\<close>.
\<close>

definition js_decrement :: "int \<Rightarrow> int" where
  "js_decrement c = (if - (2 ^ 53) < c then c - 1 else c)"

record ('bot, 'e) bridge =
  botRegistry :: "jsstring \<rightharpoonup> 'bot"
  configRegistry :: "jsstring \<rightharpoonup> 'e ExternalMessagesConfig"
  syntheticUpdateCounter :: int

definition initial :: "('bot, 'e) bridge" where
  "initial = \<lparr>botRegistry = Map.empty, configRegistry = Map.empty,
              syntheticUpdateCounter = - 1\<rparr>"

definition registerBotForExternalMessages ::
  "jsstring \<Rightarrow> 'bot \<Rightarrow> 'e ExternalMessagesConfig \<Rightarrow> ('bot, 'e) bridge \<Rightarrow> ('bot, 'e) bridge" where
  "registerBotForExternalMessages accountId b config s =
     s\<lparr>botRegistry := (botRegistry s)(accountId \<mapsto> b),
       configRegistry := (configRegistry s)(accountId \<mapsto> config)\<rparr>"

definition unregisterBotForExternalMessages ::
  "jsstring \<Rightarrow> ('bot, 'e) bridge \<Rightarrow> ('bot, 'e) bridge" where
  "unregisterBotForExternalMessages accountId s =
     s\<lparr>botRegistry := (botRegistry s)(accountId := None),
       configRegistry := (configRegistry s)(accountId := None)\<rparr>"

section \<open>Payload validation and the synthetic update\<close>

definition validatePayload :: "jsval \<Rightarrow> bool" where
  "validatePayload payload =
     (if \<not> truthy payload \<or> \<not> typeof_object payload then False
      else if nullish (get_prop payload (js ''chatId'')) then False
      else if nullish (get_prop payload (js ''messageId'')) then False
      else if (case get_prop payload (js ''senderName'') of
                 JStr s \<Rightarrow> trim s = []
               | _ \<Rightarrow> True) then False
      else if \<not> typeof_string (get_prop payload (js ''text'')) then False
      else if \<not> typeof_number (get_prop payload (js ''timestamp'')) then False
      else True)"

text \<open>
  \<^verbatim>\<open>payload.senderName.trim()\<close> on a value that is no string throws a TypeError:
  reading \<^verbatim>\<open>trim\<close> off \<^verbatim>\<open>undefined\<close> or \<^verbatim>\<open>null\<close> fails, and on any other value
  \<^verbatim>\<open>trim\<close> is no function. (Code unit 39 is the single quote of the engine's
  message.) The handler only builds from validated payloads, where the name is a
  string.
\<close>

definition TypeError_trim_undefined :: js_exn where
  "TypeError_trim_undefined =
     ErrorObj (js ''Cannot read properties of undefined (reading '' @ [39] @ js ''trim'' @ [39] @ js '')'')"

definition TypeError_trim_null :: js_exn where
  "TypeError_trim_null =
     ErrorObj (js ''Cannot read properties of null (reading '' @ [39] @ js ''trim'' @ [39] @ js '')'')"

definition TypeError_trim :: js_exn where
  "TypeError_trim = ErrorObj (js ''payload.senderName.trim is not a function'')"

text \<open>
  \<^verbatim>\<open>buildSyntheticUpdate\<close> takes the counter and returns it decremented, together
  with the update or the exception a coercion threw. The counter is decremented
  first, so it has moved also when the build throws.
\<close>

definition buildSyntheticUpdate ::
  "builtins \<Rightarrow> int \<Rightarrow> jsval \<Rightarrow> (js_exn + Update) \<times> int" where
  "buildSyntheticUpdate B counter payload =
     (let updateId = counter in
      (thenE (Number B (get_prop payload (js ''chatId''))) (\<lambda>chatId.
       thenE (Number B (get_prop payload (js ''messageId''))) (\<lambda>messageId.
       thenE (if truthy (get_prop payload (js ''senderId''))
              then Number B (get_prop payload (js ''senderId''))
              else Inr (Fin 0)) (\<lambda>senderId.
       thenE (case get_prop payload (js ''senderName'') of
                JStr s \<Rightarrow> Inr (trim s)
              | JUndefined \<Rightarrow> Inl TypeError_trim_undefined
              | JNull \<Rightarrow> Inl TypeError_trim_null
              | _ \<Rightarrow> Inl TypeError_trim) (\<lambda>firstName.
       let sender = \<lparr>user_id = senderId, user_is_bot = False, user_first_name = firstName,
                     user_username =
                       (if truthy (get_prop payload (js ''senderUsername''))
                        then Some (get_prop payload (js ''senderUsername'')) else None)\<rparr>;
           isGroup = num_negative chatId;
           chat = (if isGroup
                   then \<lparr>chat_id = chatId, chat_type = js ''supergroup'',
                         chat_title = Some (js ''Chat '' @ NumberToString B chatId),
                         chat_first_name = None\<rparr>
                   else \<lparr>chat_id = chatId, chat_type = js ''private'',
                         chat_title = None, chat_first_name = Some firstName\<rparr>)
       in
       thenE (if truthy (get_prop payload (js ''replyToMessageId''))
              then thenE (Number B (get_prop payload (js ''replyToMessageId''))) (\<lambda>replyId.
                     Inr (Some \<lparr>reply_message_id = replyId,
                                 reply_date = get_prop payload (js ''timestamp''),
                                 reply_chat = chat\<rparr>))
              else Inr None) (\<lambda>reply.
       Inr \<lparr>update_id = updateId,
            message = \<lparr>message_id = messageId,
                        msg_date = get_prop payload (js ''timestamp''),
                        msg_chat = chat,
                        msg_from = sender,
                        msg_text = get_prop payload (js ''text''),
                        reply_to_message = reply,
                        message_thread_id =
                          (if truthy (get_prop payload (js ''topicId''))
                           then Some (get_prop payload (js ''topicId'')) else None)\<rparr>\<rparr>))))),
       js_decrement counter))"

section \<open>The HTTP handler\<close>

text \<open>
  The request as the handler reads it. \<open>req_url\<close> is the result of
  \<^verbatim>\<open>new URL(req.url ?? "/", "http://localhost")\<close>, \<open>None\<close> when the constructor throws;
  Node gives both headers as a string or \<^verbatim>\<open>undefined\<close>. The body is the list of the
  stream's \<^verbatim>\<open>data\<close> chunks (bytes) and the event that closes the stream.
\<close>

record URL =
  pathname :: jsstring
  searchParams :: "(jsstring \<times> jsstring) list"

datatype stream_end = StreamEnd | StreamError js_exn

record IncomingMessage =
  req_url :: "URL option"
  req_method :: "jsstring option"
  header_authorization :: "jsstring option"
  header_x_openclaw_token :: "jsstring option"
  body_chunks :: "nat list list"
  body_end :: stream_end

text \<open>
  The response: status, headers set, and what \<^verbatim>\<open>res.end\<close> was given, either a plain
  text or the value handed to \<^verbatim>\<open>JSON.stringify\<close>.
\<close>

datatype body = Text jsstring | Json jsval

record ServerResponse =
  statusCode :: nat
  headers :: "(jsstring \<times> jsstring) list"
  body :: body

text \<open>
  How a call of the handler ends: it returns \<^verbatim>\<open>false\<close> (not its route), it returns
  \<^verbatim>\<open>true\<close> having written a response, or its promise rejects with an exception no
  \<^verbatim>\<open>try\<close> of the handler catches.
\<close>

datatype outcome = NotHandled | Handled ServerResponse | Rejected js_exn

definition sendJson :: "nat \<Rightarrow> jsval \<Rightarrow> ServerResponse" where
  "sendJson status b =
     \<lparr>statusCode = status,
      headers = [(js ''Content-Type'', js ''application/json; charset=utf-8'')],
      body = Json b\<rparr>"

definition errorBody :: "jsstring \<Rightarrow> jsval" where
  "errorBody msg = JObj [(js ''ok'', JBool False), (js ''error'', JStr msg)]"

definition methodNotAllowed :: ServerResponse where
  "methodNotAllowed =
     \<lparr>statusCode = 405,
      headers = [(js ''Allow'', js ''POST''), (js ''Content-Type'', js ''text/plain; charset=utf-8'')],
      body = Text (js ''Method Not Allowed'')\<rparr>"

text \<open>
  \<^verbatim>\<open>readJsonBody\<close>: the chunks are counted as they arrive and the promise rejects at
  the first chunk that takes the total over \<open>maxBytes\<close>; otherwise the stream's end
  decides.
\<close>

fun read_chunks :: "nat \<Rightarrow> nat \<Rightarrow> nat list list \<Rightarrow> nat list list \<Rightarrow> nat list list option" where
  "read_chunks maxBytes totalLength chunks [] = Some chunks"
| "read_chunks maxBytes totalLength chunks (chunk # rest) =
     (if totalLength + length chunk > maxBytes then None
      else read_chunks maxBytes (totalLength + length chunk) (chunks @ [chunk]) rest)"

definition readJsonBody :: "builtins \<Rightarrow> IncomingMessage \<Rightarrow> nat \<Rightarrow> js_exn + jsval" where
  "readJsonBody B req maxBytes =
     (case read_chunks maxBytes 0 [] (body_chunks req) of
        None \<Rightarrow> Inl (ErrorObj (js ''Payload too large''))
      | Some chunks \<Rightarrow>
          (case body_end req of
             StreamError e \<Rightarrow> Inl e
           | StreamEnd \<Rightarrow>
               (case JSON_parse B (concat chunks) of
                  Inl err \<Rightarrow> Inl (ErrorObj (js ''Invalid JSON: '' @ err))
                | Inr v \<Rightarrow> Inr v)))"

definition extractToken :: "IncomingMessage \<Rightarrow> jsstring option" where
  "extractToken req =
     (let tokenHeader = (case header_x_openclaw_token req of
                           Some t \<Rightarrow> Some (trim t)
                         | None \<Rightarrow> None)
      in case header_authorization req of
           Some authHeader \<Rightarrow>
             (if startsWith authHeader (js ''Bearer '')
              then Some (trim (slice_from 7 authHeader))
              else tokenHeader)
         | None \<Rightarrow> tokenHeader)"

text \<open>\<^verbatim>\<open>err instanceof Error ? err.message : String(err)\<close>.\<close>

definition errMsg :: "js_exn \<Rightarrow> jsstring" where
  "errMsg err = (case err of ErrorObj m \<Rightarrow> m | Thrown s \<Rightarrow> s)"

definition TypeError_invalid_url :: js_exn where
  "TypeError_invalid_url = ErrorObj (js ''Invalid URL'')"

definition TypeError_accountId :: js_exn where
  "TypeError_accountId = ErrorObj (js ''payload.accountId?.trim is not a function'')"

text \<open>
  \<^verbatim>\<open>payload.accountId?.trim() || "default"\<close>. The validator does not look at
  \<^verbatim>\<open>accountId\<close>, so it may be any value: one that is neither nullish nor a string
  has no \<^verbatim>\<open>trim\<close> method and the call throws.
\<close>

definition resolveAccountId :: "jsval \<Rightarrow> js_exn + jsstring" where
  "resolveAccountId payload =
     (case get_prop payload (js ''accountId'') of
        JUndefined \<Rightarrow> Inr (js ''default'')
      | JNull \<Rightarrow> Inr (js ''default'')
      | JStr a \<Rightarrow> Inr (if trim a = [] then js ''default'' else trim a)
      | _ \<Rightarrow> Inl TypeError_accountId)"

definition okBody :: "Update \<Rightarrow> jsval \<Rightarrow> jsval" where
  "okBody syntheticUpdate payload =
     JObj [(js ''ok'', JBool True),
           (js ''updateId'', JNum (Fin (of_int (update_id syntheticUpdate)))),
           (js ''messageId'', get_prop payload (js ''messageId'')),
           (js ''chatId'', get_prop payload (js ''chatId''))]"

text \<open>
  The handler. \<open>handleUpdate\<close> stands for \<^verbatim>\<open>bot.handleUpdate\<close>, the dispatch entry point
  of the session: \<open>None\<close> when the call settles normally, \<open>Some err\<close> when it
  throws. The result is the outcome, the module state afterwards, and the calls of
  \<open>handleUpdate\<close> made, in order.
\<close>

definition handleExternalMessagesRequest ::
  "builtins \<Rightarrow> ('bot \<Rightarrow> Update \<Rightarrow> js_exn option) \<Rightarrow> ('bot, 'e) bridge \<Rightarrow> IncomingMessage
     \<Rightarrow> outcome \<times> ('bot, 'e) bridge \<times> ('bot \<times> Update) list" where
  "handleExternalMessagesRequest B handleUpdate s req =
     (case req_url req of
        None \<Rightarrow> (Rejected TypeError_invalid_url, s, [])
      | Some url \<Rightarrow>
     if pathname url \<noteq> js ''/api/telegram/external-messages'' then (NotHandled, s, [])
     else if req_method req \<noteq> Some (js ''POST'') then (Handled methodNotAllowed, s, [])
     else if js ''token'' \<in> fst ` set (searchParams url) \<or> js ''secret'' \<in> fst ` set (searchParams url)
       then (Handled (sendJson 400 (errorBody (js
         ''Token must be provided via Authorization: Bearer <token> or X-OpenClaw-Token header (query parameters are not allowed)''))),
         s, [])
     else
     (case extractToken req of
        None \<Rightarrow> (Handled (sendJson 401 (errorBody (js ''Missing authentication token''))), s, [])
      | Some token \<Rightarrow>
     if token = [] then (Handled (sendJson 401 (errorBody (js ''Missing authentication token''))), s, [])
     else
     (case readJsonBody B req (1024 * 1024) of
        Inl err \<Rightarrow>
          (Handled (sendJson 400 (errorBody
             (case err of ErrorObj m \<Rightarrow> m | Thrown _ \<Rightarrow> js ''Invalid request body''))), s, [])
      | Inr payload \<Rightarrow>
     if \<not> validatePayload payload
       then (Handled (sendJson 400 (errorBody (js
         ''Invalid payload: required fields are chatId, messageId, senderName, text, timestamp''))),
         s, [])
     else
     (case resolveAccountId payload of
        Inl e \<Rightarrow> (Rejected e, s, [])
      | Inr accountId \<Rightarrow>
     (case (botRegistry s accountId, configRegistry s accountId) of
        (Some b, Some config) \<Rightarrow>
          if token \<noteq> secret config
            then (Handled (sendJson 401 (errorBody (js ''Invalid authentication token''))), s, [])
          else
          (case buildSyntheticUpdate B (syntheticUpdateCounter s) payload of
             (Inl e, counter) \<Rightarrow> (Rejected e, s\<lparr>syntheticUpdateCounter := counter\<rparr>, [])
           | (Inr syntheticUpdate, counter) \<Rightarrow>
          (case ToString B (get_prop payload (js ''chatId'')) of
             Inl e \<Rightarrow> (Rejected e, s\<lparr>syntheticUpdateCounter := counter\<rparr>, [])
           | Inr _ \<Rightarrow>
          (case handleUpdate b syntheticUpdate of
             Some err \<Rightarrow>
               (Handled (sendJson 500 (errorBody (js ''Processing failed: '' @ errMsg err))),
                s\<lparr>syntheticUpdateCounter := counter\<rparr>, [(b, syntheticUpdate)])
           | None \<Rightarrow>
               (Handled (sendJson 200 (okBody syntheticUpdate payload)),
                s\<lparr>syntheticUpdateCounter := counter\<rparr>, [(b, syntheticUpdate)]))))
      | _ \<Rightarrow>
          (Handled (sendJson 503 (errorBody
             (js ''No Telegram bot running for account '' @ [34] @ accountId @ [34]))), s, []))))))"

section \<open>The configuration resolver\<close>

text \<open>
  The loaded configuration, as far as \<^verbatim>\<open>resolveExternalMessagesConfig\<close> reads it. The
  typed fields follow their TypeScript types (\<^verbatim>\<open>cfg.channels?.telegram\<close>,
  \<^verbatim>\<open>telegramConfig.accounts\<close>, the two \<^verbatim>\<open>historyLimit\<close> defaults, each possibly
  \<^verbatim>\<open>undefined\<close>); \<^verbatim>\<open>externalMessages\<close> is read through a cast to
  \<^verbatim>\<open>Record<string, unknown>\<close> and is any value, \<open>JUndefined\<close> when missing.
\<close>

record TelegramAccountConfig =
  account_externalMessages :: jsval

record TelegramConfig =
  accounts :: "(jsstring \<rightharpoonup> TelegramAccountConfig) option"
  telegram_externalMessages :: jsval
  telegram_historyLimit :: "jsnum option"

record OpenClawConfig =
  channels_telegram :: "TelegramConfig option"
  messages_groupChat_historyLimit :: "jsnum option"

text \<open>
  The bridge settings that apply to an account, the \<^verbatim>\<open>externalConfig\<close> of the source:
  \<^verbatim>\<open>accountConfig?.externalMessages ?? telegramConfig.externalMessages\<close>. The account's
  settings are taken whole whenever they are neither \<^verbatim>\<open>undefined\<close> nor \<^verbatim>\<open>null\<close>.
\<close>

definition externalConfig :: "TelegramConfig \<Rightarrow> jsstring \<Rightarrow> jsval" where
  "externalConfig telegramConfig accountId =
     (let accountConfig = (case accounts telegramConfig of
                             None \<Rightarrow> None
                           | Some accs \<Rightarrow> accs accountId);
          accountLevel = (case accountConfig of
                            None \<Rightarrow> JUndefined
                          | Some a \<Rightarrow> account_externalMessages a)
      in if nullish accountLevel
         then telegram_externalMessages telegramConfig
         else accountLevel)"

text \<open>
  \<open>cfg\<close> is what \<^verbatim>\<open>loadConfig()\<close> returned and \<open>resolveEnvelopeFormatOptions\<close> the
  imported function of that name.
\<close>

definition resolveExternalMessagesConfig ::
  "(OpenClawConfig \<Rightarrow> 'e) \<Rightarrow> OpenClawConfig \<Rightarrow> jsstring \<Rightarrow> 'e ExternalMessagesConfig option" where
  "resolveExternalMessagesConfig resolveEnvelopeFormatOptions cfg accountId =
     (case channels_telegram cfg of
        None \<Rightarrow> None
      | Some telegramConfig \<Rightarrow>
      if \<not> truthy (externalConfig telegramConfig accountId) \<or>
         \<not> typeof_object (externalConfig telegramConfig accountId) then None
      else
      (case get_prop (externalConfig telegramConfig accountId) (js ''secret'') of
         JStr secretValue \<Rightarrow>
           if trim secretValue = [] then None
           else
             Some \<lparr>secret = trim secretValue,
                   historyLimit =
                     (case get_prop (externalConfig telegramConfig accountId) (js ''historyLimit'') of
                        JNum n \<Rightarrow> n
                      | _ \<Rightarrow>
                          (case telegram_historyLimit telegramConfig of
                             Some n \<Rightarrow> n
                           | None \<Rightarrow>
                               (case messages_groupChat_historyLimit cfg of
                                  Some n \<Rightarrow> n
                                | None \<Rightarrow> Fin 50))),
                   envelopeOptions = Some (resolveEnvelopeFormatOptions cfg)\<rparr>
       | _ \<Rightarrow> None))"

text \<open>A positive integer, as the specification asks of a history limit.\<close>

definition positive_integer :: "jsnum \<Rightarrow> bool" where
  "positive_integer n = (case n of Fin q \<Rightarrow> 0 < q \<and> q = of_int \<lfloor>q\<rfloor> | _ \<Rightarrow> False)"

section \<open>The life of a process\<close>

text \<open>
  What happens to the module state in one process: sessions register and unregister
  and requests arrive, one after the other (the handler runs on a single thread and
  touches the state in one synchronous stretch). \<open>run\<close> returns the final state and
  every call of the dispatch entry point made on the way, in order.
\<close>

datatype ('bot, 'e) event =
    Register jsstring 'bot "'e ExternalMessagesConfig"
  | Unregister jsstring
  | Request IncomingMessage

fun step ::
  "builtins \<Rightarrow> ('bot \<Rightarrow> Update \<Rightarrow> js_exn option) \<Rightarrow> ('bot, 'e) bridge \<Rightarrow> ('bot, 'e) event
     \<Rightarrow> ('bot, 'e) bridge \<times> ('bot \<times> Update) list" where
  "step B handleUpdate s (Register accountId b config) =
     (registerBotForExternalMessages accountId b config s, [])"
| "step B handleUpdate s (Unregister accountId) =
     (unregisterBotForExternalMessages accountId s, [])"
| "step B handleUpdate s (Request req) =
     (case handleExternalMessagesRequest B handleUpdate s req of
        (_, s', calls) \<Rightarrow> (s', calls))"

fun run ::
  "builtins \<Rightarrow> ('bot \<Rightarrow> Update \<Rightarrow> js_exn option) \<Rightarrow> ('bot, 'e) bridge \<Rightarrow> ('bot, 'e) event list
     \<Rightarrow> ('bot, 'e) bridge \<times> ('bot \<times> Update) list" where
  "run B handleUpdate s [] = (s, [])"
| "run B handleUpdate s (ev # evs) =
     (case step B handleUpdate s ev of
        (s1, calls1) \<Rightarrow>
          (case run B handleUpdate s1 evs of
             (s2, calls2) \<Rightarrow> (s2, calls1 @ calls2)))"


section \<open>Example inputs\<close>

text \<open>
  The request of the specification's worked example: the JSON text
  \<^verbatim>\<open>{"chatId":-5001,"messageId":42,"senderName":"Ana","senderUsername":"ana_x","senderId":555,"text":"hi","timestamp":1700000000}\<close>
  as bytes, and the value \<^verbatim>\<open>JSON.parse\<close> makes of it.
\<close>

definition example_body :: "nat list" where
  "example_body =
     [123, 34, 99, 104, 97, 116, 73, 100, 34, 58, 45, 53, 48, 48, 49, 44, 34, 109, 101,
      115, 115, 97, 103, 101, 73, 100, 34, 58, 52, 50, 44, 34, 115, 101, 110, 100, 101,
      114, 78, 97, 109, 101, 34, 58, 34, 65, 110, 97, 34, 44, 34, 115, 101, 110, 100,
      101, 114, 85, 115, 101, 114, 110, 97, 109, 101, 34, 58, 34, 97, 110, 97, 95, 120,
      34, 44, 34, 115, 101, 110, 100, 101, 114, 73, 100, 34, 58, 53, 53, 53, 44, 34,
      116, 101, 120, 116, 34, 58, 34, 104, 105, 34, 44, 34, 116, 105, 109, 101, 115,
      116, 97, 109, 112, 34, 58, 49, 55, 48, 48, 48, 48, 48, 48, 48, 48, 125]"

definition example_fields :: "(jsstring \<times> jsval) list" where
  "example_fields =
     [(js ''chatId'', JNum (Fin (- 5001))),
      (js ''messageId'', JNum (Fin 42)),
      (js ''senderName'', JStr (js ''Ana'')),
      (js ''senderUsername'', JStr (js ''ana_x'')),
      (js ''senderId'', JNum (Fin 555)),
      (js ''text'', JStr (js ''hi'')),
      (js ''timestamp'', JNum (Fin 1700000000))]"

definition example_payload :: jsval where
  "example_payload = JObj example_fields"

text \<open>
  A payload for the private chat 789, with a sender name to trim, and the example
  payload with a reply target and a topic.
\<close>

definition example_payload_private :: jsval where
  "example_payload_private =
     JObj [(js ''chatId'', JNum (Fin 789)),
           (js ''messageId'', JNum (Fin 43)),
           (js ''senderName'', JStr (js '' Ana '')),
           (js ''text'', JStr []),
           (js ''timestamp'', JNum (Fin 1700000001))]"


text \<open>
  The same without the timestamp:
  \<^verbatim>\<open>{"chatId":-5001,"messageId":42,"senderName":"Ana","text":"hi"}\<close>.
\<close>

definition example_body_no_timestamp :: "nat list" where
  "example_body_no_timestamp =
     [123, 34, 99, 104, 97, 116, 73, 100, 34, 58, 45, 53, 48, 48, 49, 44, 34, 109,
      101, 115, 115, 97, 103, 101, 73, 100, 34, 58, 52, 50, 44, 34, 115, 101, 110,
      100, 101, 114, 78, 97, 109, 101, 34, 58, 34, 65, 110, 97, 34, 44, 34, 116,
      101, 120, 116, 34, 58, 34, 104, 105, 34, 125]"

definition example_payload_no_timestamp :: jsval where
  "example_payload_no_timestamp =
     JObj [(js ''chatId'', JNum (Fin (- 5001))),
           (js ''messageId'', JNum (Fin 42)),
           (js ''senderName'', JStr (js ''Ana'')),
           (js ''text'', JStr (js ''hi''))]"

text \<open>
  Stand-ins for the built-ins, right on the values the examples use: the two example
  bodies parse to their payloads and every other body is a syntax error;
  \<open>- 5001\<close> prints as \<^verbatim>\<open>-5001\<close>; the empty string converts to zero.
\<close>

definition example_builtins :: builtins where
  "example_builtins =
     \<lparr>StringToNumber = (\<lambda>s. if s = [] then Fin 0 else NaN),
      NumberToString = (\<lambda>n. if n = Fin (- 5001) then js ''-5001'' else js ''NaN''),
      JSON_parse = (\<lambda>bytes. if bytes = example_body then Inr example_payload
                             else if bytes = example_body_no_timestamp
                               then Inr example_payload_no_timestamp
                             else Inl (js ''SyntaxError''))\<rparr>"

definition example_url :: URL where
  "example_url = \<lparr>pathname = js ''/api/telegram/external-messages'', searchParams = []\<rparr>"

definition example_request :: IncomingMessage where
  "example_request =
     \<lparr>req_url = Some example_url,
      req_method = Some (js ''POST''),
      header_authorization = Some (js ''Bearer s3cret''),
      header_x_openclaw_token = None,
      body_chunks = [example_body],
      body_end = StreamEnd\<rparr>"

text \<open>
  Variations of the example request: the secret also in the query string, the body
  without its timestamp, and a wrong secret in the header.
\<close>

definition example_request_query :: IncomingMessage where
  "example_request_query =
     example_request\<lparr>req_url :=
       Some (example_url\<lparr>searchParams := [(js ''token'', js ''s3cret'')]\<rparr>)\<rparr>"

definition example_request_no_timestamp :: IncomingMessage where
  "example_request_no_timestamp =
     example_request\<lparr>body_chunks := [example_body_no_timestamp]\<rparr>"

definition example_request_wrong_token :: IncomingMessage where
  "example_request_wrong_token =
     example_request\<lparr>header_authorization := Some (js ''Bearer wrong'')\<rparr>"

definition example_config :: "unit ExternalMessagesConfig" where
  "example_config = \<lparr>secret = js ''s3cret'', historyLimit = Fin 50, envelopeOptions = None\<rparr>"

text \<open>One session, numbered 7, registered for the account \<^verbatim>\<open>default\<close>.\<close>

definition example_bridge :: "(nat, unit) bridge" where
  "example_bridge = registerBotForExternalMessages (js ''default'') 7 example_config initial"

text \<open>The update built from the example payload when the counter stands at \<open>c\<close>.\<close>

definition example_update :: "int \<Rightarrow> Update" where
  "example_update c =
     \<lparr>update_id = c,
      message =
        \<lparr>message_id = Fin 42,
         msg_date = JNum (Fin 1700000000),
         msg_chat = \<lparr>chat_id = Fin (- 5001), chat_type = js ''supergroup'',
                     chat_title = Some (js ''Chat -5001''), chat_first_name = None\<rparr>,
         msg_from = \<lparr>user_id = Fin 555, user_is_bot = False, user_first_name = js ''Ana'',
                     user_username = Some (JStr (js ''ana_x''))\<rparr>,
         msg_text = JStr (js ''hi''),
         reply_to_message = None,
         message_thread_id = None\<rparr>\<rparr>"

definition example_update_private :: "int \<Rightarrow> Update" where
  "example_update_private c =
     \<lparr>update_id = c,
      message =
        \<lparr>message_id = Fin 43,
         msg_date = JNum (Fin 1700000001),
         msg_chat = \<lparr>chat_id = Fin 789, chat_type = js ''private'',
                     chat_title = None, chat_first_name = Some (js ''Ana'')\<rparr>,
         msg_from = \<lparr>user_id = Fin 0, user_is_bot = False, user_first_name = js ''Ana'',
                     user_username = None\<rparr>,
         msg_text = JStr [],
         reply_to_message = None,
         message_thread_id = None\<rparr>\<rparr>"


text \<open>A dispatch entry point that always settles, and one that always throws.\<close>

definition dispatch_ok :: "nat \<Rightarrow> Update \<Rightarrow> js_exn option" where
  "dispatch_ok b u = None"


text \<open>
  A configuration whose channel-level bridge settings carry a secret and the history
  limit \<open>- 5\<close>, next to a channel-wide default of 100; one with account-level settings
  that have no secret; and one with a secret and no limit anywhere.
\<close>

definition example_telegram :: TelegramConfig where
  "example_telegram =
     \<lparr>accounts = None,
      telegram_externalMessages =
        JObj [(js ''secret'', JStr (js ''s3cret'')), (js ''historyLimit'', JNum (Fin (- 5)))],
      telegram_historyLimit = Some (Fin 100)\<rparr>"

definition example_cfg :: OpenClawConfig where
  "example_cfg =
     \<lparr>channels_telegram = Some example_telegram, messages_groupChat_historyLimit = None\<rparr>"

definition example_telegram_account :: TelegramConfig where
  "example_telegram_account =
     example_telegram\<lparr>accounts :=
       Some [js ''work'' \<mapsto> \<lparr>account_externalMessages = JObj [(js ''historyLimit'', JNum (Fin 20))]\<rparr>]\<rparr>"

definition example_cfg_account :: OpenClawConfig where
  "example_cfg_account =
     \<lparr>channels_telegram = Some example_telegram_account, messages_groupChat_historyLimit = None\<rparr>"

definition example_cfg_default :: OpenClawConfig where
  "example_cfg_default =
     \<lparr>channels_telegram =
        Some \<lparr>accounts = None,
              telegram_externalMessages = JObj [(js ''secret'', JStr (js '' s3cret ''))],
              telegram_historyLimit = None\<rparr>,
      messages_groupChat_historyLimit = None\<rparr>"

text \<open>
  The first configuration again, with bridge settings of its own for the account
  \<^verbatim>\<open>work\<close>: another secret, to be trimmed, and the limit 20.
\<close>

definition example_telegram_override :: TelegramConfig where
  "example_telegram_override =
     example_telegram\<lparr>accounts :=
       Some [js ''work'' \<mapsto>
         \<lparr>account_externalMessages =
            JObj [(js ''secret'', JStr (js '' w0rk '')), (js ''historyLimit'', JNum (Fin 20))]\<rparr>]\<rparr>"

definition example_cfg_override :: OpenClawConfig where
  "example_cfg_override =
     \<lparr>channels_telegram = Some example_telegram_override,
      messages_groupChat_historyLimit = None\<rparr>"


section \<open>The builder and the counter\<close>

lemma build_counter: "snd (buildSyntheticUpdate B c p) = js_decrement c"
  by (simp add: buildSyntheticUpdate_def Let_def)

lemma build_counter': "buildSyntheticUpdate B c p = (r, c') \<Longrightarrow> c' = js_decrement c"
  using build_counter[of B c p] by simp

lemma thenE_Inr: "thenE m f = Inr y \<Longrightarrow> \<exists>x. m = Inr x \<and> f x = Inr y"
  by (cases m) (simp_all add: thenE_def)

lemma build_id:
  assumes "buildSyntheticUpdate B c p = (Inr u, c')"
  shows "update_id u = c"
proof -
  from assms have "fst (buildSyntheticUpdate B c p) = Inr u" by simp
  then show ?thesis
    unfolding buildSyntheticUpdate_def Let_def fst_conv
    by (auto dest!: thenE_Inr)
qed

text \<open>
  One call of the handler leaves the registries alone, dispatches at most one update,
  and moves the counter by at most one decrement; an update it dispatches carries the
  counter's value from before the call.
\<close>

lemma handle_shape:
  assumes "handleExternalMessagesRequest B H s req = (out, s', calls)"
  shows "botRegistry s' = botRegistry s \<and> configRegistry s' = configRegistry s \<and>
         ((calls = [] \<and> (s' = s \<or> s' = s\<lparr>syntheticUpdateCounter := js_decrement (syntheticUpdateCounter s)\<rparr>))
          \<or> (\<exists>b u. calls = [(b, u)] \<and> update_id u = syntheticUpdateCounter s \<and>
                 s' = s\<lparr>syntheticUpdateCounter := js_decrement (syntheticUpdateCounter s)\<rparr>))"
  using assms
  unfolding handleExternalMessagesRequest_def
  by (auto split: option.splits sum.splits if_splits prod.splits dest: build_id build_counter')

section \<open>The example request, step by step\<close>

lemma ex_token: "extractToken example_request = Some (js ''s3cret'')"
  by (simp add: extractToken_def example_request_def startsWith_def slice_from_def trim_def isWhiteSpace_def js_def)

lemma ex_body: "readJsonBody example_builtins example_request 1048576 = Inr example_payload"
  by (simp add: readJsonBody_def example_request_def example_builtins_def example_body_def)

lemma ex_valid: "validatePayload example_payload"
  by (simp add: validatePayload_def example_payload_def example_fields_def truthy_def typeof_object_def get_prop_def nullish_def typeof_string_def typeof_number_def js_def trim_def isWhiteSpace_def)

lemma ex_acc: "resolveAccountId example_payload = Inr (js ''default'')"
  by (simp add: resolveAccountId_def example_payload_def example_fields_def get_prop_def js_def)

lemma ex_build:
  "buildSyntheticUpdate example_builtins c example_payload = (Inr (example_update c), js_decrement c)"
  by (simp add: buildSyntheticUpdate_def example_payload_def example_fields_def example_builtins_def example_update_def
      get_prop_def Number_def thenE_def truthy_def num_negative_def trim_def isWhiteSpace_def js_def)




lemma ex_gates:
  "req_url example_request = Some example_url"
  "pathname example_url = js ''/api/telegram/external-messages''"
  "req_method example_request = Some (js ''POST'')"
  "js ''token'' \<notin> fst ` set (searchParams example_url)"
  "js ''secret'' \<notin> fst ` set (searchParams example_url)"
  by (simp_all add: example_request_def example_url_def)


lemma ex_nonempty: "js ''s3cret'' \<noteq> []" "js ''wrong'' \<noteq> []" "js ''wrong'' \<noteq> js ''s3cret''"
  by (simp_all add: js_def)

lemma ex_no_timestamp:
  "req_url example_request_no_timestamp = Some example_url"
  "req_method example_request_no_timestamp = Some (js ''POST'')"
  "extractToken example_request_no_timestamp = Some (js ''s3cret'')"
  "readJsonBody example_builtins example_request_no_timestamp 1048576 = Inr example_payload_no_timestamp"
  "\<nexists>n. get_prop example_payload_no_timestamp (js ''timestamp'') = JNum n"
  by (simp_all add: example_request_no_timestamp_def example_request_def extractToken_def
      startsWith_def slice_from_def trim_def isWhiteSpace_def js_def readJsonBody_def
      example_builtins_def example_body_def example_body_no_timestamp_def
      example_payload_no_timestamp_def get_prop_def)

lemma ex_wrong_token:
  "req_url example_request_wrong_token = Some example_url"
  "req_method example_request_wrong_token = Some (js ''POST'')"
  "extractToken example_request_wrong_token = Some (js ''wrong'')"
  "readJsonBody example_builtins example_request_wrong_token 1048576 = Inr example_payload"
  by (simp_all add: example_request_wrong_token_def example_request_def extractToken_def
      startsWith_def slice_from_def trim_def isWhiteSpace_def js_def readJsonBody_def
      example_builtins_def example_body_def)

lemma ex_fields:
  "\<exists>kvs. example_payload = JObj kvs"
  "(\<exists>n. get_prop example_payload (js ''chatId'') = JNum n) \<or> (\<exists>str. get_prop example_payload (js ''chatId'') = JStr str)"
  "(\<exists>n. get_prop example_payload (js ''messageId'') = JNum n) \<or> (\<exists>str. get_prop example_payload (js ''messageId'') = JStr str)"
  "\<exists>nm. get_prop example_payload (js ''senderName'') = JStr nm \<and> trim nm \<noteq> []"
  "\<exists>t. get_prop example_payload (js ''text'') = JStr t"
  "\<exists>n. get_prop example_payload (js ''timestamp'') = JNum n"
  by (simp_all add: example_payload_def example_fields_def get_prop_def js_def trim_def isWhiteSpace_def)

lemma ex_bodies:
  "readJsonBody example_builtins example_request (1024 * 1024) = Inr example_payload"
  "readJsonBody example_builtins example_request_no_timestamp (1024 * 1024) = Inr example_payload_no_timestamp"
  "readJsonBody example_builtins example_request_wrong_token (1024 * 1024) = Inr example_payload"
  using ex_body ex_no_timestamp(4) ex_wrong_token(4) by simp_all


lemma ex_build_private:
  "buildSyntheticUpdate example_builtins c example_payload_private =
     (Inr (example_update_private c), js_decrement c)"
  by (simp add: buildSyntheticUpdate_def example_payload_private_def example_builtins_def
      example_update_private_def get_prop_def Number_def thenE_def truthy_def num_negative_def
      trim_def isWhiteSpace_def js_def)

lemma ex_valid_private: "validatePayload example_payload_private"
  by (simp add: validatePayload_def example_payload_private_def truthy_def typeof_object_def
      get_prop_def nullish_def typeof_string_def typeof_number_def js_def trim_def isWhiteSpace_def)



lemma ex_account_level:
  "channels_telegram example_cfg_account = Some example_telegram_account"
  "accounts example_telegram_account =
     Some [js ''work'' \<mapsto> \<lparr>account_externalMessages = JObj [(js ''historyLimit'', JNum (Fin 20))]\<rparr>]"
  "[js ''work'' \<mapsto> \<lparr>account_externalMessages = JObj [(js ''historyLimit'', JNum (Fin 20))]\<rparr>] (js ''work'') =
     Some \<lparr>account_externalMessages = JObj [(js ''historyLimit'', JNum (Fin 20))]\<rparr>"
  "\<not> nullish (account_externalMessages \<lparr>account_externalMessages = JObj [(js ''historyLimit'', JNum (Fin 20))]\<rparr>)"
  "get_prop (JObj [(js ''historyLimit'', JNum (Fin 20))]) (js ''secret'') = JUndefined"
  "get_prop (telegram_externalMessages example_telegram_account) (js ''secret'') = JStr (js ''s3cret'')"
  by (simp_all add: example_cfg_account_def example_telegram_account_def example_telegram_def
      nullish_def get_prop_def js_def)

lemma ex_resolve_default:
  "resolveExternalMessagesConfig (\<lambda>_. ()) example_cfg_default (js ''default'') =
     Some \<lparr>secret = js ''s3cret'', historyLimit = Fin 50, envelopeOptions = Some ()\<rparr>"
  by (simp add: resolveExternalMessagesConfig_def example_cfg_default_def externalConfig_def
      nullish_def truthy_def typeof_object_def get_prop_def trim_def isWhiteSpace_def js_def)

lemma ex_resolve_negative:
  "resolveExternalMessagesConfig (\<lambda>_. ()) example_cfg (js ''default'') =
     Some \<lparr>secret = js ''s3cret'', historyLimit = Fin (- 5), envelopeOptions = Some ()\<rparr>"
  by (simp add: resolveExternalMessagesConfig_def example_cfg_def example_telegram_def
      externalConfig_def nullish_def truthy_def typeof_object_def get_prop_def trim_def
      isWhiteSpace_def js_def)

lemma ex_override:
  "channels_telegram example_cfg_override = Some example_telegram_override"
  "accounts example_telegram_override =
     Some [js ''work'' \<mapsto>
         \<lparr>account_externalMessages =
            JObj [(js ''secret'', JStr (js '' w0rk '')), (js ''historyLimit'', JNum (Fin 20))]\<rparr>]"
  "[js ''work'' \<mapsto>
         \<lparr>account_externalMessages =
            JObj [(js ''secret'', JStr (js '' w0rk '')), (js ''historyLimit'', JNum (Fin 20))]\<rparr>] (js ''work'') =
     Some \<lparr>account_externalMessages =
            JObj [(js ''secret'', JStr (js '' w0rk '')), (js ''historyLimit'', JNum (Fin 20))]\<rparr>"
  "\<not> nullish (account_externalMessages \<lparr>account_externalMessages =
            JObj [(js ''secret'', JStr (js '' w0rk '')), (js ''historyLimit'', JNum (Fin 20))]\<rparr>)"
  "get_prop (JObj [(js ''secret'', JStr (js '' w0rk '')), (js ''historyLimit'', JNum (Fin 20))])
     (js ''secret'') = JStr (js '' w0rk '')"
  "trim (js '' w0rk '') = js ''w0rk''" "js ''w0rk'' \<noteq> []"
  "get_prop (telegram_externalMessages example_telegram_override) (js ''secret'') = JStr (js ''s3cret'')"
  "example_telegram_override\<lparr>telegram_externalMessages :=
     telegram_externalMessages example_telegram_override\<rparr> = example_telegram_override"
  by (simp_all add: example_cfg_override_def example_telegram_override_def example_telegram_def
      nullish_def get_prop_def trim_def isWhiteSpace_def js_def)

section \<open>Identifiers over the life of a process\<close>












section \<open>The gates of the handler\<close>

text \<open>
  Claim C8. A POST to the bridge's path whose query string has a \<^verbatim>\<open>token\<close> or a
  \<^verbatim>\<open>secret\<close> parameter is answered 400, whatever the two credential headers and the
  body are: the answer is the same for every value of the headers, the body chunks and
  the end of the stream, so the check comes before the headers are read for a
  credential and before the body is read or validated. The state is unchanged and
  nothing is dispatched.
\<close>

theorem query_credential_rejected:
  assumes "req_url req = Some url"
    and "pathname url = js ''/api/telegram/external-messages''"
    and "req_method req = Some (js ''POST'')"
    and "js ''token'' \<in> fst ` set (searchParams url) \<or> js ''secret'' \<in> fst ` set (searchParams url)"
  shows "handleExternalMessagesRequest B handleUpdate s
           (req\<lparr>header_authorization := auth, header_x_openclaw_token := tok,
                body_chunks := chunks, body_end := fin\<rparr>) =
         (Handled (sendJson 400 (errorBody (js
            ''Token must be provided via Authorization: Bearer <token> or X-OpenClaw-Token header (query parameters are not allowed)''))),
          s, [])"
  using assms unfolding handleExternalMessagesRequest_def by simp

theorem query_credential_rejected_witness:
  "handleExternalMessagesRequest example_builtins dispatch_ok example_bridge example_request_query =
     (Handled (sendJson 400 (errorBody (js
        ''Token must be provided via Authorization: Bearer <token> or X-OpenClaw-Token header (query parameters are not allowed)''))),
      example_bridge, [])"
proof -
  let ?url = "example_url\<lparr>searchParams := [(js ''token'', js ''s3cret'')]\<rparr>"
  have 1: "req_url example_request_query = Some ?url"
    by (simp add: example_request_query_def)
  have 2: "pathname ?url = js ''/api/telegram/external-messages''"
    by (simp add: example_url_def)
  have 3: "req_method example_request_query = Some (js ''POST'')"
    by (simp add: example_request_query_def example_request_def)
  have 4: "js ''token'' \<in> fst ` set (searchParams ?url) \<or> js ''secret'' \<in> fst ` set (searchParams ?url)"
    by simp
  have 5: "example_request_query\<lparr>header_authorization := Some (js ''Bearer s3cret''),
             header_x_openclaw_token := None, body_chunks := [example_body], body_end := StreamEnd\<rparr>
           = example_request_query"
    by (simp add: example_request_query_def example_request_def)
  from query_credential_rejected[OF 1 2 3 4, where B = example_builtins
      and handleUpdate = dispatch_ok and s = example_bridge
      and auth = "Some (js ''Bearer s3cret'')" and tok = None
      and chunks = "[example_body]" and fin = StreamEnd]
  show ?thesis by (simp only: 5)
qed

text \<open>What \<^verbatim>\<open>validatePayload\<close> accepts, field by field.\<close>

lemma validatePayload_iff:
  "validatePayload payload \<longleftrightarrow>
     (\<exists>kvs. payload = JObj kvs) \<and>
     \<not> nullish (get_prop payload (js ''chatId'')) \<and>
     \<not> nullish (get_prop payload (js ''messageId'')) \<and>
     (\<exists>nm. get_prop payload (js ''senderName'') = JStr nm \<and> trim nm \<noteq> []) \<and>
     (\<exists>t. get_prop payload (js ''text'') = JStr t) \<and>
     (\<exists>n. get_prop payload (js ''timestamp'') = JNum n)"
proof (cases payload)
  case (JObj kvs)
  then show ?thesis
    by (auto simp: validatePayload_def truthy_def typeof_object_def typeof_string_def
        typeof_number_def split: jsval.splits)
next
  case (JArr xs)
  then show ?thesis
    by (simp add: validatePayload_def get_prop_def nullish_def)
qed (simp_all add: validatePayload_def truthy_def typeof_object_def)

text \<open>
  Claim C3. For a request that has reached validation (the bridge's path, POST, no
  credential in the query string, a non-empty credential in a header, a body that
  parsed): if the parsed body is no object, or its chat identifier or message
  identifier is missing or null, or its sender name is no string or blank after
  trimming, or its text is no string, or its timestamp is no number, the answer is 400
  with the one message that names the five required fields, the state is unchanged
  and nothing is dispatched. An identifier that is a number or any string is accepted
  as it is: with the other three fields right the payload validates, and the
  handler's answer is not the validation error.
\<close>

theorem invalid_payload_rejected:
  assumes "req_url req = Some url"
    and "pathname url = js ''/api/telegram/external-messages''"
    and "req_method req = Some (js ''POST'')"
    and "js ''token'' \<notin> fst ` set (searchParams url)"
    and "js ''secret'' \<notin> fst ` set (searchParams url)"
    and "extractToken req = Some token" and "token \<noteq> []"
    and "readJsonBody B req (1024 * 1024) = Inr payload"
  shows "((\<nexists>kvs. payload = JObj kvs) \<or>
          nullish (get_prop payload (js ''chatId'')) \<or>
          nullish (get_prop payload (js ''messageId'')) \<or>
          (\<nexists>nm. get_prop payload (js ''senderName'') = JStr nm \<and> trim nm \<noteq> []) \<or>
          (\<nexists>t. get_prop payload (js ''text'') = JStr t) \<or>
          (\<nexists>n. get_prop payload (js ''timestamp'') = JNum n)
          \<longrightarrow>
          handleExternalMessagesRequest B handleUpdate s req =
            (Handled (sendJson 400 (errorBody (js
               ''Invalid payload: required fields are chatId, messageId, senderName, text, timestamp''))),
             s, []))
         \<and>
         ((\<exists>kvs. payload = JObj kvs) \<and>
          ((\<exists>n. get_prop payload (js ''chatId'') = JNum n) \<or> (\<exists>str. get_prop payload (js ''chatId'') = JStr str)) \<and>
          ((\<exists>n. get_prop payload (js ''messageId'') = JNum n) \<or> (\<exists>str. get_prop payload (js ''messageId'') = JStr str)) \<and>
          (\<exists>nm. get_prop payload (js ''senderName'') = JStr nm \<and> trim nm \<noteq> []) \<and>
          (\<exists>t. get_prop payload (js ''text'') = JStr t) \<and>
          (\<exists>n. get_prop payload (js ''timestamp'') = JNum n)
          \<longrightarrow>
          validatePayload payload \<and>
          fst (handleExternalMessagesRequest B handleUpdate s req) \<noteq>
            Handled (sendJson 400 (errorBody (js
               ''Invalid payload: required fields are chatId, messageId, senderName, text, timestamp''))))"
proof (intro conjI impI)
  assume "(\<nexists>kvs. payload = JObj kvs) \<or>
          nullish (get_prop payload (js ''chatId'')) \<or>
          nullish (get_prop payload (js ''messageId'')) \<or>
          (\<nexists>nm. get_prop payload (js ''senderName'') = JStr nm \<and> trim nm \<noteq> []) \<or>
          (\<nexists>t. get_prop payload (js ''text'') = JStr t) \<or>
          (\<nexists>n. get_prop payload (js ''timestamp'') = JNum n)"
  then have "\<not> validatePayload payload"
    unfolding validatePayload_iff by blast
  with assms show "handleExternalMessagesRequest B handleUpdate s req =
            (Handled (sendJson 400 (errorBody (js
               ''Invalid payload: required fields are chatId, messageId, senderName, text, timestamp''))),
             s, [])"
    unfolding handleExternalMessagesRequest_def by simp
next
  assume a: "(\<exists>kvs. payload = JObj kvs) \<and>
          ((\<exists>n. get_prop payload (js ''chatId'') = JNum n) \<or> (\<exists>str. get_prop payload (js ''chatId'') = JStr str)) \<and>
          ((\<exists>n. get_prop payload (js ''messageId'') = JNum n) \<or> (\<exists>str. get_prop payload (js ''messageId'') = JStr str)) \<and>
          (\<exists>nm. get_prop payload (js ''senderName'') = JStr nm \<and> trim nm \<noteq> []) \<and>
          (\<exists>t. get_prop payload (js ''text'') = JStr t) \<and>
          (\<exists>n. get_prop payload (js ''timestamp'') = JNum n)"
  then show v: "validatePayload payload"
    unfolding validatePayload_iff by (auto simp: nullish_def)
  have d: "sendJson st (errorBody m) = sendJson st' (errorBody m') \<longleftrightarrow> st = st' \<and> m = m'" for st st' m m'
    by (auto simp: sendJson_def errorBody_def)
  have d2: "sendJson st (okBody u p) \<noteq> sendJson st' (errorBody m')" for st st' u p m'
    by (auto simp: sendJson_def errorBody_def okBody_def js_def)
  from assms v show "fst (handleExternalMessagesRequest B handleUpdate s req) \<noteq>
            Handled (sendJson 400 (errorBody (js
               ''Invalid payload: required fields are chatId, messageId, senderName, text, timestamp'')))"
    unfolding handleExternalMessagesRequest_def
    by (auto simp: d d2 split: sum.splits option.splits prod.splits)
qed

theorem invalid_payload_rejected_witness:
  "handleExternalMessagesRequest example_builtins dispatch_ok example_bridge example_request_no_timestamp =
     (Handled (sendJson 400 (errorBody (js
        ''Invalid payload: required fields are chatId, messageId, senderName, text, timestamp''))),
      example_bridge, []) \<and>
   validatePayload example_payload \<and>
   fst (handleExternalMessagesRequest example_builtins dispatch_ok example_bridge example_request) \<noteq>
     Handled (sendJson 400 (errorBody (js
        ''Invalid payload: required fields are chatId, messageId, senderName, text, timestamp'')))"
proof -
  note a = invalid_payload_rejected[where B = example_builtins and handleUpdate = dispatch_ok
      and s = example_bridge, OF ex_no_timestamp(1) ex_gates(2) ex_no_timestamp(2) ex_gates(4,5)
      ex_no_timestamp(3) ex_nonempty(1) ex_bodies(2)]
  note b = invalid_payload_rejected[where B = example_builtins and handleUpdate = dispatch_ok
      and s = example_bridge, OF ex_gates ex_token ex_nonempty(1) ex_bodies(1)]
  from a[THEN conjunct1] ex_no_timestamp(5)
  have 1: "handleExternalMessagesRequest example_builtins dispatch_ok example_bridge example_request_no_timestamp =
     (Handled (sendJson 400 (errorBody (js
        ''Invalid payload: required fields are chatId, messageId, senderName, text, timestamp''))),
      example_bridge, [])" by blast
  from b[THEN conjunct2] ex_fields
  have 2: "validatePayload example_payload \<and>
   fst (handleExternalMessagesRequest example_builtins dispatch_ok example_bridge example_request) \<noteq>
     Handled (sendJson 400 (errorBody (js
        ''Invalid payload: required fields are chatId, messageId, senderName, text, timestamp'')))"
    by blast
  from 1 2 show ?thesis by blast
qed




section \<open>Dispatch\<close>


lemma Number_primitive:
  "(\<nexists>xs. v = JArr xs) \<Longrightarrow> (\<nexists>kvs. v = JObj kvs) \<Longrightarrow> \<exists>n. Number B v = Inr n"
  by (cases v) (auto simp: Number_def)




section \<open>Registration\<close>

text \<open>Nothing but a registration for the account brings its session back.\<close>

lemma run_keeps_unregistered:
  assumes "run B H s evs = (s', calls)"
    and "botRegistry s a = None"
    and "\<forall>b c. Register a b c \<notin> set evs"
  shows "botRegistry s' a = None"
  using assms
proof (induction evs arbitrary: s s' calls)
  case Nil
  then show ?case by simp
next
  case (Cons ev evs)
  obtain s1 calls1 where st: "step B H s ev = (s1, calls1)"
    by (cases "step B H s ev") auto
  obtain s2 calls2 where rn: "run B H s1 evs = (s2, calls2)"
    by (cases "run B H s1 evs") auto
  from Cons.prems(1) st rn have eq: "s' = s2" by auto
  have "botRegistry s1 a = None"
  proof (cases ev)
    case (Register a' b c)
    with Cons.prems(3) have "a' \<noteq> a" by auto
    with st Register Cons.prems(2) show ?thesis
      by (auto simp: registerBotForExternalMessages_def)
  next
    case (Unregister a')
    with st Cons.prems(2) show ?thesis
      by (auto simp: unregisterBotForExternalMessages_def)
  next
    case (Request req)
    obtain out s'' cs where h: "handleExternalMessagesRequest B H s req = (out, s'', cs)"
      by (cases "handleExternalMessagesRequest B H s req") auto
    with st Request have "s1 = s''" by auto
    with handle_shape[OF h] Cons.prems(2) show ?thesis by simp
  qed
  moreover from Cons.prems(3) have "\<forall>b c. Register a b c \<notin> set evs" by auto
  ultimately have "botRegistry s2 a = None" using Cons.IH[OF rn] by blast
  with eq show ?case by simp
qed

text \<open>
  Claim C6. After \<^verbatim>\<open>unregisterBotForExternalMessages(accountId)\<close>, and whatever happens
  next short of a new registration for that account (other registrations,
  unregistrations, requests), a request that reaches the account lookup and resolves
  to \<open>accountId\<close> is answered 503, with the state unchanged and nothing dispatched;
  the credential plays no part, so one that matched the registered secret before makes
  no difference. A registration replaces an earlier one for the same account, the last
  write winning: registering twice leaves the state that the second registration alone
  would have left.
\<close>

theorem unregistered_account_unavailable:
  assumes "run B handleUpdate (unregisterBotForExternalMessages accountId s) evs = (s', calls)"
    and "\<forall>b c. Register accountId b c \<notin> set evs"
    and "req_url req = Some url"
    and "pathname url = js ''/api/telegram/external-messages''"
    and "req_method req = Some (js ''POST'')"
    and "js ''token'' \<notin> fst ` set (searchParams url)"
    and "js ''secret'' \<notin> fst ` set (searchParams url)"
    and "extractToken req = Some token" and "token \<noteq> []"
    and "readJsonBody B req (1024 * 1024) = Inr payload"
    and "validatePayload payload"
    and "resolveAccountId payload = Inr accountId"
  shows "handleExternalMessagesRequest B handleUpdate s' req =
           (Handled (sendJson 503 (errorBody
              (js ''No Telegram bot running for account '' @ [34] @ accountId @ [34]))), s', [])
         \<and> registerBotForExternalMessages accountId b2 c2
              (registerBotForExternalMessages accountId b1 c1 s) =
             registerBotForExternalMessages accountId b2 c2 s
         \<and> botRegistry (registerBotForExternalMessages accountId b2 c2 s) accountId = Some b2
         \<and> configRegistry (registerBotForExternalMessages accountId b2 c2 s) accountId = Some c2"
proof -
  have "botRegistry (unregisterBotForExternalMessages accountId s) accountId = None"
    by (simp add: unregisterBotForExternalMessages_def)
  from run_keeps_unregistered[OF assms(1) this assms(2)]
  have none: "botRegistry s' accountId = None" .
  from assms(3-12) none
  have "handleExternalMessagesRequest B handleUpdate s' req =
           (Handled (sendJson 503 (errorBody
              (js ''No Telegram bot running for account '' @ [34] @ accountId @ [34]))), s', [])"
    unfolding handleExternalMessagesRequest_def by simp
  then show ?thesis
    by (simp add: registerBotForExternalMessages_def)
qed

theorem unregistered_account_unavailable_witness:
  "handleExternalMessagesRequest example_builtins dispatch_ok
     (registerBotForExternalMessages (js ''other'') 8 example_config
        (unregisterBotForExternalMessages (js ''default'') example_bridge)) example_request =
   (Handled (sendJson 503 (errorBody
      (js ''No Telegram bot running for account '' @ [34] @ js ''default'' @ [34]))),
    registerBotForExternalMessages (js ''other'') 8 example_config
      (unregisterBotForExternalMessages (js ''default'') example_bridge), [])"
proof -
  let ?s0 = "unregisterBotForExternalMessages (js ''default'') example_bridge"
  let ?evs = "[Request example_request, Register (js ''other'') 8 example_config]"
  note t = unregistered_account_unavailable[where B = example_builtins
      and handleUpdate = dispatch_ok and s = example_bridge and accountId = "js ''default''",
      OF _ _ ex_gates ex_token ex_nonempty(1) ex_bodies(1) ex_valid ex_acc]
  have r0: "run example_builtins dispatch_ok ?s0 [] = (?s0, [])"
    by simp
  have n0: "\<forall>b c. Register (js ''default'') b c \<notin> set ([] :: (nat, unit) event list)"
    by simp
  from t[OF r0 n0]
  have h0: "handleExternalMessagesRequest example_builtins dispatch_ok ?s0 example_request =
    (Handled (sendJson 503 (errorBody
      (js ''No Telegram bot running for account '' @ [34] @ js ''default'' @ [34]))), ?s0, [])"
    by (rule conjunct1)
  have r: "run example_builtins dispatch_ok ?s0 ?evs =
             (registerBotForExternalMessages (js ''other'') 8 example_config ?s0, [])"
    by (simp add: h0)
  have n: "\<forall>b c. Register (js ''default'') b c \<notin> set ?evs"
    by (simp add: js_def)
  from t[OF r n] show ?thesis by (rule conjunct1)
qed

section \<open>The synthetic update\<close>

lemma build_chat:
  assumes "buildSyntheticUpdate B c payload = (Inr u, c')"
  shows "\<exists>chatId nm.
           Number B (get_prop payload (js ''chatId'')) = Inr chatId \<and>
           get_prop payload (js ''senderName'') = JStr nm \<and>
           msg_chat (message u) =
             (if num_negative chatId
              then \<lparr>chat_id = chatId, chat_type = js ''supergroup'',
                    chat_title = Some (js ''Chat '' @ NumberToString B chatId),
                    chat_first_name = None\<rparr>
              else \<lparr>chat_id = chatId, chat_type = js ''private'',
                    chat_title = None, chat_first_name = Some (trim nm)\<rparr>)"
proof -
  from assms have "fst (buildSyntheticUpdate B c payload) = Inr u" by simp
  then show ?thesis
    unfolding buildSyntheticUpdate_def Let_def fst_conv
    by (auto dest!: thenE_Inr split: jsval.splits if_splits)
qed


lemma Number_of_primitive: "primitive v \<Longrightarrow> \<exists>n. Number B v = Inr n"
  by (cases v) (auto simp: Number_def primitive_def)

lemma build_total:
  assumes "validatePayload payload"
    and "primitive (get_prop payload (js ''chatId''))"
    and "primitive (get_prop payload (js ''messageId''))"
    and "primitive (get_prop payload (js ''senderId''))"
    and "primitive (get_prop payload (js ''replyToMessageId''))"
  shows "\<exists>u. buildSyntheticUpdate B c payload = (Inr u, js_decrement c)"
proof -
  from assms(1) obtain nm where nm: "get_prop payload (js ''senderName'') = JStr nm"
    unfolding validatePayload_iff by blast
  from Number_of_primitive[OF assms(2)] obtain n1
    where n1: "Number B (get_prop payload (js ''chatId'')) = Inr n1" by blast
  from Number_of_primitive[OF assms(3)] obtain n2
    where n2: "Number B (get_prop payload (js ''messageId'')) = Inr n2" by blast
  from Number_of_primitive[OF assms(4)] obtain n3
    where n3: "Number B (get_prop payload (js ''senderId'')) = Inr n3" by blast
  from Number_of_primitive[OF assms(5)] obtain n4
    where n4: "Number B (get_prop payload (js ''replyToMessageId'')) = Inr n4" by blast
  show ?thesis
    unfolding buildSyntheticUpdate_def Let_def
    by (simp add: nm n1 n2 n3 n4 thenE_def)
qed

text \<open>
  Claim C5. For a validated payload: the builder returns an update whenever the
  identifiers it coerces (chat, message, sender, reply target) are no arrays and no
  objects, as the payload's type says; and in every update it returns, the chat
  descriptor is the supergroup one, titled \<^verbatim>\<open>Chat \<close> followed by the identifier, exactly
  when \<^verbatim>\<open>Number(chatId)\<close> is negative, and otherwise the private one with the trimmed
  sender name as first name. A descriptor has a title or a first name and never both,
  the two type tags differ, and two payloads with the same chat identifier get the
  same type and the same numeric identifier.
\<close>

theorem chat_kind_by_sign_of_chat_id:
  assumes "validatePayload payload"
  shows "(primitive (get_prop payload (js ''chatId'')) \<and>
          primitive (get_prop payload (js ''messageId'')) \<and>
          primitive (get_prop payload (js ''senderId'')) \<and>
          primitive (get_prop payload (js ''replyToMessageId''))
          \<longrightarrow> (\<exists>u. buildSyntheticUpdate B c payload = (Inr u, js_decrement c)))
         \<and>
         (\<forall>u c'. buildSyntheticUpdate B c payload = (Inr u, c') \<longrightarrow>
            (\<exists>chatId nm.
               Number B (get_prop payload (js ''chatId'')) = Inr chatId \<and>
               get_prop payload (js ''senderName'') = JStr nm \<and>
               msg_chat (message u) =
                 (if num_negative chatId
                  then \<lparr>chat_id = chatId, chat_type = js ''supergroup'',
                        chat_title = Some (js ''Chat '' @ NumberToString B chatId),
                        chat_first_name = None\<rparr>
                  else \<lparr>chat_id = chatId, chat_type = js ''private'',
                        chat_title = None, chat_first_name = Some (trim nm)\<rparr>)))
         \<and>
         (\<forall>payload' k u u' c1 c2.
            get_prop payload' (js ''chatId'') = get_prop payload (js ''chatId'') \<and>
            buildSyntheticUpdate B c payload = (Inr u, c1) \<and>
            buildSyntheticUpdate B k payload' = (Inr u', c2) \<longrightarrow>
            chat_type (msg_chat (message u')) = chat_type (msg_chat (message u)) \<and>
            chat_id (msg_chat (message u')) = chat_id (msg_chat (message u)))
         \<and> js ''supergroup'' \<noteq> js ''private''"
proof (intro conjI allI impI)
  assume "primitive (get_prop payload (js ''chatId'')) \<and>
          primitive (get_prop payload (js ''messageId'')) \<and>
          primitive (get_prop payload (js ''senderId'')) \<and>
          primitive (get_prop payload (js ''replyToMessageId''))"
  with assms show "\<exists>u. buildSyntheticUpdate B c payload = (Inr u, js_decrement c)"
    by (blast intro: build_total)
next
  fix u c' assume "buildSyntheticUpdate B c payload = (Inr u, c')"
  from build_chat[OF this]
  show "\<exists>chatId nm.
               Number B (get_prop payload (js ''chatId'')) = Inr chatId \<and>
               get_prop payload (js ''senderName'') = JStr nm \<and>
               msg_chat (message u) =
                 (if num_negative chatId
                  then \<lparr>chat_id = chatId, chat_type = js ''supergroup'',
                        chat_title = Some (js ''Chat '' @ NumberToString B chatId),
                        chat_first_name = None\<rparr>
                  else \<lparr>chat_id = chatId, chat_type = js ''private'',
                        chat_title = None, chat_first_name = Some (trim nm)\<rparr>)" .
next
  fix payload' k u u' c1 c2
  assume a: "get_prop payload' (js ''chatId'') = get_prop payload (js ''chatId'') \<and>
            buildSyntheticUpdate B c payload = (Inr u, c1) \<and>
            buildSyntheticUpdate B k payload' = (Inr u', c2)"
  from a build_chat[of B c payload u c1] build_chat[of B k payload' u' c2]
  show "chat_type (msg_chat (message u')) = chat_type (msg_chat (message u))"
    by (auto split: if_splits)
  from a build_chat[of B c payload u c1] build_chat[of B k payload' u' c2]
  show "chat_id (msg_chat (message u')) = chat_id (msg_chat (message u))"
    by (auto split: if_splits)
next
  show "js ''supergroup'' \<noteq> js ''private''" by (simp add: js_def)
qed

theorem chat_kind_by_sign_of_chat_id_witness:
  "msg_chat (message (example_update (- 1))) =
     \<lparr>chat_id = Fin (- 5001), chat_type = js ''supergroup'',
      chat_title = Some (js ''Chat -5001''), chat_first_name = None\<rparr> \<and>
   msg_chat (message (example_update_private (- 1))) =
     \<lparr>chat_id = Fin 789, chat_type = js ''private'',
      chat_title = None, chat_first_name = Some (js ''Ana'')\<rparr>"
proof -
  note a = chat_kind_by_sign_of_chat_id[OF ex_valid, where B = example_builtins and c = "- 1",
      THEN conjunct2, THEN conjunct1, rule_format, OF ex_build]
  note b = chat_kind_by_sign_of_chat_id[OF ex_valid_private, where B = example_builtins and c = "- 1",
      THEN conjunct2, THEN conjunct1, rule_format, OF ex_build_private]
  have 1: "Number example_builtins (get_prop example_payload (js ''chatId'')) = Inr (Fin (- 5001))"
    "Number example_builtins (get_prop example_payload_private (js ''chatId'')) = Inr (Fin 789)"
    "get_prop example_payload_private (js ''senderName'') = JStr (js '' Ana '')"
    by (simp_all add: example_payload_def example_fields_def example_payload_private_def
        get_prop_def Number_def js_def)
  have 2: "NumberToString example_builtins (Fin (- 5001)) = js ''-5001''"
    "js ''Chat '' @ js ''-5001'' = js ''Chat -5001''"
    "trim (js '' Ana '') = js ''Ana''"
    by (simp_all add: example_builtins_def js_def trim_def isWhiteSpace_def)
  from a 1 2 have "msg_chat (message (example_update (- 1))) =
     \<lparr>chat_id = Fin (- 5001), chat_type = js ''supergroup'',
      chat_title = Some (js ''Chat -5001''), chat_first_name = None\<rparr>"
    by (auto simp: num_negative_def)
  moreover from b 1 2 have "msg_chat (message (example_update_private (- 1))) =
     \<lparr>chat_id = Fin 789, chat_type = js ''private'',
      chat_title = None, chat_first_name = Some (js ''Ana'')\<rparr>"
    by (auto simp: num_negative_def)
  ultimately show ?thesis by blast
qed









section \<open>The resolver\<close>

lemma resolve_None_without_secret:
  assumes "channels_telegram cfg = Some tc"
    and "\<nexists>sv. get_prop (externalConfig tc accountId) (js ''secret'') = JStr sv \<and> trim sv \<noteq> []"
  shows "resolveExternalMessagesConfig f cfg accountId = None"
  using assms unfolding resolveExternalMessagesConfig_def
  by (auto split: jsval.splits)

lemma trim_Nil: "trim [] = []"
  by (simp add: trim_def)

lemma resolve_Some_with_secret:
  assumes "channels_telegram cfg = Some tc"
    and "externalConfig tc accountId = JObj kvs"
    and "get_prop (JObj kvs) (js ''secret'') = JStr sv"
    and "trim sv \<noteq> []"
  shows "\<exists>c. resolveExternalMessagesConfig f cfg accountId = Some c \<and>
             secret c = trim sv \<and> envelopeOptions c = Some (f cfg)"
  using assms unfolding resolveExternalMessagesConfig_def
  by (simp add: truthy_def typeof_object_def)

lemma resolve_Some_iff:
  "(\<exists>c. resolveExternalMessagesConfig f cfg accountId = Some c) \<longleftrightarrow>
     (\<exists>tc kvs sv. channels_telegram cfg = Some tc \<and> externalConfig tc accountId = JObj kvs \<and>
        get_prop (JObj kvs) (js ''secret'') = JStr sv \<and> trim sv \<noteq> [])"
proof
  assume "\<exists>c. resolveExternalMessagesConfig f cfg accountId = Some c"
  then obtain c where c: "resolveExternalMessagesConfig f cfg accountId = Some c" by blast
  then obtain tc where tc: "channels_telegram cfg = Some tc"
    by (cases "channels_telegram cfg") (auto simp: resolveExternalMessagesConfig_def)
  from c tc obtain sv where sv: "get_prop (externalConfig tc accountId) (js ''secret'') = JStr sv"
      "trim sv \<noteq> []"
    using resolve_None_without_secret[OF tc, of accountId f] by fastforce
  then obtain kvs where "externalConfig tc accountId = JObj kvs"
    by (cases "externalConfig tc accountId") (auto simp: get_prop_def)
  with tc sv show "\<exists>tc kvs sv. channels_telegram cfg = Some tc \<and> externalConfig tc accountId = JObj kvs \<and>
        get_prop (JObj kvs) (js ''secret'') = JStr sv \<and> trim sv \<noteq> []"
    by auto
next
  assume "\<exists>tc kvs sv. channels_telegram cfg = Some tc \<and> externalConfig tc accountId = JObj kvs \<and>
        get_prop (JObj kvs) (js ''secret'') = JStr sv \<and> trim sv \<noteq> []"
  then show "\<exists>c. resolveExternalMessagesConfig f cfg accountId = Some c"
    using resolve_Some_with_secret by blast
qed

lemma externalConfig_fallback:
  assumes "\<forall>accs ac. accounts tc = Some accs \<and> accs accountId = Some ac
             \<longrightarrow> nullish (account_externalMessages ac)"
  shows "externalConfig tc accountId = telegram_externalMessages tc"
  using assms by (auto simp: externalConfig_def nullish_def split: option.splits)

text \<open>
  Claim C7. The resolver returns nothing whenever the bridge settings that apply to the
  account carry no secret that is a non-empty string, and also when that string is
  blank after trimming, and when there is no Telegram configuration at all; no other
  setting changes that. It returns a configuration exactly when the settings that
  apply are an object whose secret is a string that is not blank, and the
  configuration then carries that secret, trimmed. The settings that apply are the
  account's own whenever the account has any (neither \<^verbatim>\<open>undefined\<close> nor \<^verbatim>\<open>null\<close>),
  and the channel's otherwise: with a secret in the account's settings the resolved
  secret is the account's, whatever the channel-level bridge settings are, and the
  channel-level bridge settings have no influence on the resolved secret and limit.
\<close>

theorem resolver_needs_secret_account_first:
  "((\<forall>tc. channels_telegram cfg = Some tc \<longrightarrow>
        (\<nexists>sv. get_prop (externalConfig tc accountId) (js ''secret'') = JStr sv \<and> sv \<noteq> []))
      \<longrightarrow> resolveExternalMessagesConfig f cfg accountId = None)
   \<and>
   ((\<forall>tc. channels_telegram cfg = Some tc \<longrightarrow>
        (\<nexists>sv. get_prop (externalConfig tc accountId) (js ''secret'') = JStr sv \<and> trim sv \<noteq> []))
      \<longrightarrow> resolveExternalMessagesConfig f cfg accountId = None)
   \<and>
   (\<forall>tc accs ac.
      channels_telegram cfg = Some tc \<and> accounts tc = Some accs \<and> accs accountId = Some ac \<and>
      \<not> nullish (account_externalMessages ac)
      \<longrightarrow> externalConfig tc accountId = account_externalMessages ac \<and>
          (\<forall>x. map_option (\<lambda>c. (secret c, historyLimit c))
                 (resolveExternalMessagesConfig f
                    (cfg\<lparr>channels_telegram := Some (tc\<lparr>telegram_externalMessages := x\<rparr>)\<rparr>)
                    accountId) =
               map_option (\<lambda>c. (secret c, historyLimit c))
                 (resolveExternalMessagesConfig f cfg accountId)))
   \<and>
   (\<forall>tc kvs sv.
      channels_telegram cfg = Some tc \<and> externalConfig tc accountId = JObj kvs \<and>
      get_prop (JObj kvs) (js ''secret'') = JStr sv \<and> trim sv \<noteq> []
      \<longrightarrow> (\<exists>c. resolveExternalMessagesConfig f cfg accountId = Some c \<and>
               secret c = trim sv \<and> envelopeOptions c = Some (f cfg)))
   \<and>
   (\<forall>tc accs ac kvs sv x.
      channels_telegram cfg = Some tc \<and> accounts tc = Some accs \<and> accs accountId = Some ac \<and>
      account_externalMessages ac = JObj kvs \<and>
      get_prop (JObj kvs) (js ''secret'') = JStr sv \<and> trim sv \<noteq> []
      \<longrightarrow> (\<exists>c. resolveExternalMessagesConfig f
                    (cfg\<lparr>channels_telegram := Some (tc\<lparr>telegram_externalMessages := x\<rparr>)\<rparr>)
                    accountId = Some c \<and>
               secret c = trim sv))
   \<and>
   (\<forall>tc.
      channels_telegram cfg = Some tc \<and>
      (\<forall>accs ac. accounts tc = Some accs \<and> accs accountId = Some ac
         \<longrightarrow> nullish (account_externalMessages ac))
      \<longrightarrow> externalConfig tc accountId = telegram_externalMessages tc)
   \<and>
   ((\<exists>c. resolveExternalMessagesConfig f cfg accountId = Some c) \<longleftrightarrow>
      (\<exists>tc kvs sv. channels_telegram cfg = Some tc \<and> externalConfig tc accountId = JObj kvs \<and>
         get_prop (JObj kvs) (js ''secret'') = JStr sv \<and> trim sv \<noteq> []))"
proof (intro conjI allI impI)
  assume a: "\<forall>tc. channels_telegram cfg = Some tc \<longrightarrow>
        (\<nexists>sv. get_prop (externalConfig tc accountId) (js ''secret'') = JStr sv \<and> trim sv \<noteq> [])"
  show "resolveExternalMessagesConfig f cfg accountId = None"
  proof (cases "channels_telegram cfg")
    case None
    then show ?thesis by (simp add: resolveExternalMessagesConfig_def)
  next
    case (Some tc)
    with a resolve_None_without_secret[OF Some] show ?thesis by blast
  qed
next
  assume a: "\<forall>tc. channels_telegram cfg = Some tc \<longrightarrow>
        (\<nexists>sv. get_prop (externalConfig tc accountId) (js ''secret'') = JStr sv \<and> sv \<noteq> [])"
  have b: "\<nexists>sv. get_prop (externalConfig tc accountId) (js ''secret'') = JStr sv \<and> trim sv \<noteq> []"
    if "channels_telegram cfg = Some tc" for tc
    using a that trim_Nil by fastforce
  show "resolveExternalMessagesConfig f cfg accountId = None"
  proof (cases "channels_telegram cfg")
    case None
    then show ?thesis by (simp add: resolveExternalMessagesConfig_def)
  next
    case (Some tc)
    from resolve_None_without_secret[OF Some b[OF Some]] show ?thesis .
  qed
next
  fix tc accs ac
  assume a: "channels_telegram cfg = Some tc \<and> accounts tc = Some accs \<and> accs accountId = Some ac \<and>
      \<not> nullish (account_externalMessages ac)"
  then show e: "externalConfig tc accountId = account_externalMessages ac"
    by (simp add: externalConfig_def)
  fix x
  from a have "externalConfig (tc\<lparr>telegram_externalMessages := x\<rparr>) accountId = account_externalMessages ac"
    by (simp add: externalConfig_def)
  with a e show "map_option (\<lambda>c. (secret c, historyLimit c))
                 (resolveExternalMessagesConfig f
                    (cfg\<lparr>channels_telegram := Some (tc\<lparr>telegram_externalMessages := x\<rparr>)\<rparr>)
                    accountId) =
               map_option (\<lambda>c. (secret c, historyLimit c))
                 (resolveExternalMessagesConfig f cfg accountId)"
    by (simp add: resolveExternalMessagesConfig_def split: jsval.splits option.splits)
next
  fix tc kvs sv
  assume "channels_telegram cfg = Some tc \<and> externalConfig tc accountId = JObj kvs \<and>
      get_prop (JObj kvs) (js ''secret'') = JStr sv \<and> trim sv \<noteq> []"
  then show "\<exists>c. resolveExternalMessagesConfig f cfg accountId = Some c \<and>
               secret c = trim sv \<and> envelopeOptions c = Some (f cfg)"
    using resolve_Some_with_secret by blast
next
  fix tc accs ac kvs sv x
  let ?cfg = "cfg\<lparr>channels_telegram := Some (tc\<lparr>telegram_externalMessages := x\<rparr>)\<rparr>"
  assume a: "channels_telegram cfg = Some tc \<and> accounts tc = Some accs \<and> accs accountId = Some ac \<and>
      account_externalMessages ac = JObj kvs \<and>
      get_prop (JObj kvs) (js ''secret'') = JStr sv \<and> trim sv \<noteq> []"
  have 1: "channels_telegram ?cfg = Some (tc\<lparr>telegram_externalMessages := x\<rparr>)" by simp
  from a have 2: "externalConfig (tc\<lparr>telegram_externalMessages := x\<rparr>) accountId = JObj kvs"
    by (simp add: externalConfig_def nullish_def)
  from a resolve_Some_with_secret[OF 1 2, of sv f]
  show "\<exists>c. resolveExternalMessagesConfig f ?cfg accountId = Some c \<and> secret c = trim sv"
    by blast
next
  fix tc
  assume "channels_telegram cfg = Some tc \<and>
      (\<forall>accs ac. accounts tc = Some accs \<and> accs accountId = Some ac
         \<longrightarrow> nullish (account_externalMessages ac))"
  then show "externalConfig tc accountId = telegram_externalMessages tc"
    using externalConfig_fallback by blast
next
  show "(\<exists>c. resolveExternalMessagesConfig f cfg accountId = Some c) \<longleftrightarrow>
      (\<exists>tc kvs sv. channels_telegram cfg = Some tc \<and> externalConfig tc accountId = JObj kvs \<and>
         get_prop (JObj kvs) (js ''secret'') = JStr sv \<and> trim sv \<noteq> [])"
    by (rule resolve_Some_iff)
qed

theorem resolver_needs_secret_account_first_witness:
  "resolveExternalMessagesConfig (\<lambda>_. ()) example_cfg_account (js ''work'') = None \<and>
   externalConfig example_telegram_account (js ''work'') = JObj [(js ''historyLimit'', JNum (Fin 20))] \<and>
   get_prop (telegram_externalMessages example_telegram_account) (js ''secret'') = JStr (js ''s3cret'') \<and>
   map_option secret (resolveExternalMessagesConfig (\<lambda>_. ()) example_cfg_override (js ''work'')) =
     Some (js ''w0rk'') \<and>
   get_prop (telegram_externalMessages example_telegram_override) (js ''secret'') = JStr (js ''s3cret'')"
proof -
  note t = resolver_needs_secret_account_first[where cfg = example_cfg_account
      and accountId = "js ''work''" and f = "\<lambda>_. ()"]
  from t[THEN conjunct2, THEN conjunct2, THEN conjunct1, rule_format, OF conjI[OF ex_account_level(1)
        conjI[OF ex_account_level(2) conjI[OF ex_account_level(3,4)]]], THEN conjunct1]
  have e: "externalConfig example_telegram_account (js ''work'') = JObj [(js ''historyLimit'', JNum (Fin 20))]"
    by simp
  have "\<forall>tc. channels_telegram example_cfg_account = Some tc \<longrightarrow>
        (\<nexists>sv. get_prop (externalConfig tc (js ''work'')) (js ''secret'') = JStr sv \<and> sv \<noteq> [])"
    by (simp add: ex_account_level(1) e ex_account_level(5))
  from mp[OF t[THEN conjunct1] this]
  have n: "resolveExternalMessagesConfig (\<lambda>_. ()) example_cfg_account (js ''work'') = None" .
  note u = resolver_needs_secret_account_first[where cfg = example_cfg_override
      and accountId = "js ''work''" and f = "\<lambda>_. ()"]
  from u[THEN conjunct2, THEN conjunct2, THEN conjunct1, rule_format, OF conjI[OF ex_override(1)
        conjI[OF ex_override(2) conjI[OF ex_override(3,4)]]], THEN conjunct1]
  have e': "externalConfig example_telegram_override (js ''work'') =
      JObj [(js ''secret'', JStr (js '' w0rk '')), (js ''historyLimit'', JNum (Fin 20))]"
    by simp
  have ne: "trim (js '' w0rk '') \<noteq> []" by (simp add: ex_override(6,7))
  from u[THEN conjunct2, THEN conjunct2, THEN conjunct2, THEN conjunct1, rule_format,
      OF conjI[OF ex_override(1) conjI[OF e' conjI[OF ex_override(5) ne]]]]
  obtain c where c: "resolveExternalMessagesConfig (\<lambda>_. ()) example_cfg_override (js ''work'') = Some c"
    "secret c = trim (js '' w0rk '')" by blast
  then have p: "map_option secret (resolveExternalMessagesConfig (\<lambda>_. ()) example_cfg_override (js ''work'')) =
     Some (js ''w0rk'')"
    by (simp add: ex_override(6))
  from n e ex_account_level(6) p ex_override(8) show ?thesis by blast
qed

lemma positive_integer_50: "positive_integer (Fin 50)"
  by (simp add: positive_integer_def)

text \<open>
  Claim C9, as amended. When the resolver returns a configuration, its history limit is
  the number under \<^verbatim>\<open>historyLimit\<close> in the bridge settings that apply to the account if
  that value is a number, else the channel-wide \<^verbatim>\<open>historyLimit\<close>, else the group chat
  default of the messages section, else 50. The value is passed on as configured: it
  is a positive integer when each configured candidate is one.
\<close>

theorem history_limit_precedence:
  assumes "resolveExternalMessagesConfig f cfg accountId = Some config"
    and "channels_telegram cfg = Some tc"
  shows "historyLimit config =
           (case get_prop (externalConfig tc accountId) (js ''historyLimit'') of
              JNum n \<Rightarrow> n
            | _ \<Rightarrow> (case telegram_historyLimit tc of
                      Some n \<Rightarrow> n
                    | None \<Rightarrow> (case messages_groupChat_historyLimit cfg of
                                 Some n \<Rightarrow> n
                               | None \<Rightarrow> Fin 50)))
         \<and>
         ((\<forall>n. get_prop (externalConfig tc accountId) (js ''historyLimit'') = JNum n
                \<longrightarrow> positive_integer n) \<and>
          (\<forall>n. telegram_historyLimit tc = Some n \<longrightarrow> positive_integer n) \<and>
          (\<forall>n. messages_groupChat_historyLimit cfg = Some n \<longrightarrow> positive_integer n)
          \<longrightarrow> positive_integer (historyLimit config))"
proof -
  from assms have h: "historyLimit config =
           (case get_prop (externalConfig tc accountId) (js ''historyLimit'') of
              JNum n \<Rightarrow> n
            | _ \<Rightarrow> (case telegram_historyLimit tc of
                      Some n \<Rightarrow> n
                    | None \<Rightarrow> (case messages_groupChat_historyLimit cfg of
                                 Some n \<Rightarrow> n
                               | None \<Rightarrow> Fin 50)))"
    unfolding resolveExternalMessagesConfig_def
    by (auto split: if_splits jsval.splits)
  have "positive_integer (historyLimit config)"
    if "(\<forall>n. get_prop (externalConfig tc accountId) (js ''historyLimit'') = JNum n
                \<longrightarrow> positive_integer n) \<and>
          (\<forall>n. telegram_historyLimit tc = Some n \<longrightarrow> positive_integer n) \<and>
          (\<forall>n. messages_groupChat_historyLimit cfg = Some n \<longrightarrow> positive_integer n)"
    using that positive_integer_50 unfolding h
    by (auto split: jsval.splits option.splits)
  with h show ?thesis by blast
qed

theorem history_limit_precedence_witness:
  "resolveExternalMessagesConfig (\<lambda>_. ()) example_cfg_default (js ''default'') =
     Some \<lparr>secret = js ''s3cret'', historyLimit = Fin 50, envelopeOptions = Some ()\<rparr> \<and>
   positive_integer (historyLimit
     \<lparr>secret = js ''s3cret'', historyLimit = Fin 50, envelopeOptions = Some ()\<rparr>) \<and>
   historyLimit \<lparr>secret = js ''s3cret'', historyLimit = Fin (- 5), envelopeOptions = Some ()\<rparr> =
     Fin (- 5)"
proof -
  have ch: "channels_telegram example_cfg_default =
      Some \<lparr>accounts = None,
            telegram_externalMessages = JObj [(js ''secret'', JStr (js '' s3cret ''))],
            telegram_historyLimit = None\<rparr>"
    by (simp add: example_cfg_default_def)
  have ch': "channels_telegram example_cfg = Some example_telegram"
    by (simp add: example_cfg_def)
  note a = history_limit_precedence[OF ex_resolve_default ch]
  note b = history_limit_precedence[OF ex_resolve_negative ch']
  have g: "get_prop (externalConfig \<lparr>accounts = None,
            telegram_externalMessages = JObj [(js ''secret'', JStr (js '' s3cret ''))],
            telegram_historyLimit = None\<rparr> (js ''default'')) (js ''historyLimit'') = JUndefined"
    "messages_groupChat_historyLimit example_cfg_default = None"
    by (simp_all add: externalConfig_def nullish_def get_prop_def js_def example_cfg_default_def)
  from a[THEN conjunct2] g
  have 1: "positive_integer (historyLimit
     \<lparr>secret = js ''s3cret'', historyLimit = Fin 50, envelopeOptions = Some ()\<rparr>)"
    by simp
  have g': "get_prop (externalConfig example_telegram (js ''default'')) (js ''historyLimit'') = JNum (Fin (- 5))"
    by (simp add: externalConfig_def nullish_def get_prop_def js_def example_telegram_def)
  from b[THEN conjunct1] g'
  have 2: "historyLimit \<lparr>secret = js ''s3cret'', historyLimit = Fin (- 5), envelopeOptions = Some ()\<rparr> =
     Fin (- 5)" by simp
  from ex_resolve_default 1 2 show ?thesis by blast
qed

text \<open>
  Claim C9 as stated fails in its first half: nothing checks the number. Bridge
  settings with the limit \<open>- 5\<close> resolve to a configuration with the limit \<open>- 5\<close>.
\<close>

theorem history_limit_not_checked:
  "resolveExternalMessagesConfig (\<lambda>_. ()) example_cfg (js ''default'') =
     Some \<lparr>secret = js ''s3cret'', historyLimit = Fin (- 5), envelopeOptions = Some ()\<rparr> \<and>
   \<not> positive_integer (Fin (- 5))"
  by (simp add: ex_resolve_negative positive_integer_def)

end
